theory Spec2Isabelle
  imports Main "HOL-Library.Word"
begin

unbundle bit_operations_syntax

section \<open>NetROM transport of wl2k-go: addresses\<close>

text \<open>
  The package \<open>netrom\<close> (Go). Strings are Go strings, that is byte sequences: a
  \<^typ>\<open>string\<close> here. The functions of Go's standard library that the package calls
  (\<open>strings.Split\<close>, \<open>strconv.ParseInt\<close>, the verb \<open>%d\<close> of \<open>fmt\<close>) are written
  out as the library computes them, for the arguments the package passes.
\<close>

subsection \<open>Library: strings.Split with a one-byte separator\<close>

text \<open>\<open>strings.IndexByte\<close>: the index of the first occurrence of the byte, or -1.\<close>

definition IndexByte :: "string \<Rightarrow> char \<Rightarrow> int" where
  "IndexByte s c = (if c \<in> set s then int (length (takeWhile (\<lambda>x. x \<noteq> c) s)) else - 1)"

text \<open>
  \<open>strings.Split(s, sep)\<close> for a separator of one byte. The library's loop: find the
  separator in \<open>s\<close>; when there is none, the rest of \<open>s\<close> is the last piece; otherwise
  \<open>s[:m]\<close> is a piece and the loop goes on with \<open>s[m+1:]\<close>.
\<close>

function Split :: "string \<Rightarrow> char \<Rightarrow> string list" where
  "Split s sep =
     (let m = IndexByte s sep in
      if m < 0 then [s]
      else take (nat m) s # Split (drop (nat m + 1) s) sep)"
  by pat_completeness auto
termination
proof (relation "measure (\<lambda>(s, sep). length s)")
  show "wf (measure (\<lambda>(s, sep). length s))" by simp
next
  fix s :: string and sep :: char and m :: int
  assume m: "m = IndexByte s sep" and nonneg: "\<not> m < 0"
  have "sep \<in> set s"
    using m nonneg by (auto simp: IndexByte_def split: if_splits)
  then have "s \<noteq> []" by auto
  then show "((drop (nat m + 1) s, sep), (s, sep)) \<in> measure (\<lambda>(s, sep). length s)"
    by simp
qed

declare Split.simps [simp del]

subsection \<open>Library: strconv.ParseInt in base 10\<close>

datatype NumError = ErrSyntax | ErrRange

definition isDigit :: "char \<Rightarrow> bool" where
  "isDigit d = ((of_char CHR ''0'' :: nat) \<le> of_char d \<and> (of_char d :: nat) \<le> of_char CHR ''9'')"

definition digitVal :: "char \<Rightarrow> nat" where
  "digitVal d = of_char d - of_char CHR ''0''"

text \<open>
  The loop of \<open>strconv.ParseUint(s, 10, bitSize)\<close> over the bytes of \<open>s\<close>, with the
  value read so far. A byte that is no decimal digit ends it with a syntax error (a
  letter is a digit of a larger base only). A value beyond \<open>maxVal = 2 ^ bitSize - 1\<close>
  ends it with a range error; the library tests the overflow of its 64-bit accumulator
  and the bound \<open>maxVal\<close> separately, and the numbers here are unbounded, so the one
  test \<open>maxVal < n * 10 + v\<close> is both.
\<close>

fun ParseUint_loop :: "nat \<Rightarrow> nat \<Rightarrow> string \<Rightarrow> nat \<times> NumError option" where
  "ParseUint_loop maxVal n [] = (n, None)"
| "ParseUint_loop maxVal n (d # ds) =
     (if \<not> isDigit d then (0, Some ErrSyntax)
      else let v = digitVal d in
        if maxVal < n * 10 + v then (maxVal, Some ErrRange)
        else ParseUint_loop maxVal (n * 10 + v) ds)"

definition ParseUint :: "string \<Rightarrow> nat \<Rightarrow> nat \<times> NumError option" where
  "ParseUint s bitSize =
     (if s = [] then (0, Some ErrSyntax)
      else ParseUint_loop (2 ^ bitSize - 1) 0 s)"

text \<open>
  \<open>strconv.ParseInt(s, 10, bitSize)\<close>: an optional sign, then \<open>ParseUint\<close>; a syntax
  error is passed on, and a magnitude outside the signed range of \<open>bitSize\<close> bits is a
  range error with the nearest bound as value.
\<close>

definition ParseInt :: "string \<Rightarrow> nat \<Rightarrow> int \<times> NumError option" where
  "ParseInt s bitSize =
     (if s = [] then (0, Some ErrSyntax)
      else
        let neg = (hd s = CHR ''-'');
            s1 = (if hd s = CHR ''+'' \<or> hd s = CHR ''-'' then tl s else s);
            (un, err) = ParseUint s1 bitSize
        in
          if err \<noteq> None \<and> err \<noteq> Some ErrRange then (0, err)
          else
            let cutoff = (2 :: nat) ^ (bitSize - 1) in
              if \<not> neg \<and> cutoff \<le> un then (int cutoff - 1, Some ErrRange)
              else if neg \<and> cutoff < un then (- int cutoff, Some ErrRange)
              else (if neg then - int un else int un, None))"

subsection \<open>Library: the verb %d of fmt on an unsigned integer\<close>

definition digitChar :: "nat \<Rightarrow> char" where
  "digitChar v = char_of (of_char CHR ''0'' + v)"

function FormatDec :: "nat \<Rightarrow> string" where
  "FormatDec n =
     (if n < 10 then [digitChar n]
      else FormatDec (n div 10) @ [digitChar (n mod 10)])"
  by pat_completeness auto
termination
  by (relation "measure (\<lambda>n. n)") auto

declare FormatDec.simps [simp del]

subsection \<open>Address, AddressFromString, Address.String\<close>

text \<open>
  \<^verbatim>\<open>type Address struct { Call string; SSID uint8 }\<close>
\<close>

record Address =
  Call :: string
  SSID :: "8 word"

text \<open>
  A run-time panic of Go is a value of the model. \<open>AddressFromString\<close> indexes
  \<open>parts[0]\<close>, which panics on an empty slice.
\<close>

datatype panic =
    IndexOutOfRange
  | CloseOfClosedChannel
  | CloseOfNilChannel
  | NilDereference
  | PanicMsg string

definition AddressFromString :: "string \<Rightarrow> panic + Address" where
  "AddressFromString str =
     (let parts = Split str CHR ''-'' in
      case parts of
        [] \<Rightarrow> Inl IndexOutOfRange
      | p0 # _ \<Rightarrow>
          let addr = \<lparr>Call = p0, SSID = 0\<rparr> in
          if 1 < length parts then
            (let (ssid, err) = ParseInt (parts ! 1) 32 in
             if err = None \<and> 0 \<le> ssid \<and> ssid \<le> 255
             then Inr (addr\<lparr>SSID := word_of_int ssid\<rparr>)
             else Inr addr)
          else Inr addr)"


section \<open>Errors\<close>

text \<open>
  \<open>syscall.Errno\<close> is an unsigned machine integer (\<open>uintptr\<close>); the numbers are those of
  Linux.
\<close>

definition EINTR :: nat where "EINTR = 4"
definition EINVAL :: nat where "EINVAL = 22"
definition EALREADY :: nat where "EALREADY = 114"
definition EINPROGRESS :: nat where "EINPROGRESS = 115"

text \<open>
  The values of Go's interface \<open>error\<close> that the package meets: an \<open>Errno\<close>, an
  \<open>*os.PathError\<close> (operation, path, wrapped error), a value made on the spot by
  \<open>errors.New\<close> or \<open>fmt.Errorf\<close>, and the package-level variables
  \<open>ErrMessageTooLong\<close>, \<open>ErrPortNotExist\<close> and \<open>io.EOF\<close>, each a pointer distinct from
  every other error.
\<close>

datatype error =
    Errno nat
  | PathError string string error
  | ErrorString string
  | ErrMessageTooLong
  | ErrPortNotExist
  | EOF

text \<open>
  The method \<open>Error()\<close>. The text of an \<open>Errno\<close> comes from a table of Go's package
  \<open>syscall\<close>, the parameter \<open>errtab\<close>.
\<close>

fun Error :: "(nat \<Rightarrow> string) \<Rightarrow> error \<Rightarrow> string" where
  "Error errtab (Errno e) = errtab e"
| "Error errtab (PathError opn path e) = opn @ '' '' @ path @ '': '' @ Error errtab e"
| "Error errtab (ErrorString s) = s"
| "Error errtab ErrMessageTooLong =
     ''Write: Message too long. Consider increasing maximum packet length to >= 125.''"
| "Error errtab ErrPortNotExist = ''No such NR port found''"
| "Error errtab EOF = ''EOF''"

section \<open>Descriptor sets\<close>

text \<open>
  \<open>syscall.FdSet\<close> on a 64-bit platform is \<^verbatim>\<open>struct { Bits [16]int64 }\<close>: the list of
  its words. Indexing the array out of range panics.
\<close>

type_synonym FdSet = "64 word list"

definition new_FdSet :: FdSet where
  "new_FdSet = replicate 16 0"

fun fdSet_loop :: "FdSet \<Rightarrow> nat \<Rightarrow> nat list \<Rightarrow> panic + (FdSet \<times> nat)" where
  "fdSet_loop p mx [] = Inr (p, mx)"
| "fdSet_loop p mx (i # fds) =
     (let fElemSize = 32 * 32 div length p in
      if 1024 < i then Inl (PanicMsg (''fdSet: File Descriptor >= 1024: '' @ FormatDec i))
      else
        let mx' = (if mx < i then i else mx) in
        if length p \<le> i div fElemSize then Inl IndexOutOfRange
        else fdSet_loop
               (p[i div fElemSize := (p ! (i div fElemSize)) OR push_bit (i mod fElemSize) 1])
               mx' fds)"

definition fdSet :: "FdSet \<Rightarrow> nat list \<Rightarrow> panic + (FdSet \<times> nat)" where
  "fdSet p fds = fdSet_loop p 0 fds"

definition fdIsSet :: "FdSet \<Rightarrow> nat \<Rightarrow> panic + bool" where
  "fdIsSet p i =
     (let fElemSize = 32 * 32 div length p in
      if length p \<le> i div fElemSize then Inl IndexOutOfRange
      else Inr ((p ! (i div fElemSize)) AND push_bit (i mod fElemSize) 1 \<noteq> 0))"

section \<open>The operating system and the C library\<close>

text \<open>
  \<^verbatim>\<open>type ax25Addr C.struct_full_sockaddr_ax25\<close>: the family, the seven bytes of the
  call, and the digipeaters.
\<close>

record ax25Addr =
  sax25_family :: nat
  sax25_call :: "8 word list"
  sax25_ndigis :: nat
  fsa_digipeater :: "8 word list list"

definition AF_NETROM :: nat where "AF_NETROM = 6"
definition SOCK_SEQPACKET :: nat where "SOCK_SEQPACKET = 5"

text \<open>\<^verbatim>\<open>type NetROMAddr struct{ addr }\<close>\<close>

datatype NetROMAddr = NetROMAddr ax25Addr

text \<open>An \<open>*os.File\<close>: the descriptor and the name given to \<open>os.NewFile\<close>.\<close>

record File =
  file_fd :: nat
  file_name :: string

text \<open>
  \<^verbatim>\<open>type Timeval struct { Sec int64; Usec int64 }\<close> and \<open>syscall.NsecToTimeval\<close>, which
  rounds the nanoseconds up to a microsecond. Go's division of integers truncates
  towards zero, its remainder has the sign of the dividend, and its 64-bit arithmetic
  wraps around.
\<close>

record Timeval =
  tv_Sec :: int
  tv_Usec :: int

definition int_quo :: "int \<Rightarrow> int \<Rightarrow> int" where
  "int_quo a b =
     (if (a < 0) = (b < 0) then \<bar>a\<bar> div \<bar>b\<bar> else - (\<bar>a\<bar> div \<bar>b\<bar>))"

definition int_rem :: "int \<Rightarrow> int \<Rightarrow> int" where
  "int_rem a b = a - b * int_quo a b"

definition wrap_int64 :: "int \<Rightarrow> int" where
  "wrap_int64 x = (x + 2 ^ 63) mod 2 ^ 64 - 2 ^ 63"

definition NsecToTimeval :: "int \<Rightarrow> Timeval" where
  "NsecToTimeval nsec0 =
     (let nsec = wrap_int64 (nsec0 + 999);
          usec = int_quo (int_rem nsec 1000000000) 1000;
          sec = int_quo nsec 1000000000
      in if usec < 0 then \<lparr>tv_Sec = wrap_int64 (sec - 1), tv_Usec = usec + 1000000\<rparr>
         else \<lparr>tv_Sec = sec, tv_Usec = usec\<rparr>)"

text \<open>The calls that reach the kernel, as the program makes them.\<close>

datatype syscall =
    SysSocket nat nat nat
  | SysBind nat ax25Addr
  | SysConnect nat ax25Addr
  | SysSetNonblock nat bool
  | SysSelect nat "FdSet option" "FdSet option" "Timeval option"
  | SysGetsockoptInt nat
  | SysClose nat
  | SysAccept nat
  | SysPipe

text \<open>
  What the kernel and libax25 answer is an input of the program. \<open>os\<close> holds the
  answer to each call: an error or nothing for the calls that only succeed or fail, the
  new descriptor for \<open>socket\<close>, the count, error and returned set for \<open>select\<close>, the
  value and error for \<open>getsockopt(SO_ERROR)\<close>, the descriptor, peer address, whether
  the address length came back unchanged, and error for \<open>accept\<close>, the two ends for
  \<open>pipe\<close>, and count and error of a read or write on a file.
\<close>

record os =
  errno_text :: "nat \<Rightarrow> string"
  nr_config_load_ports :: "int \<times> error option"
  nr_config_get_dev :: "string \<Rightarrow> bool"
  ax25_aton :: "string \<Rightarrow> int \<times> ax25Addr"
  Socket_ans :: "error + nat"
  bind_ans :: "nat \<Rightarrow> ax25Addr \<Rightarrow> error option"
  connect_ans :: "nat \<Rightarrow> ax25Addr \<Rightarrow> error option"
  SetNonblock_ans :: "nat \<Rightarrow> bool \<Rightarrow> error option"
  Select_ans :: "int \<times> error option \<times> FdSet"
  GetsockoptInt_ans :: "int \<times> error option"
  Close_ans :: "nat \<Rightarrow> error option"
  accept_ans :: "int \<times> ax25Addr \<times> bool \<times> error option"
  Pipe_ans :: "error + (nat \<times> nat)"
  Read_ans :: "File \<Rightarrow> nat \<Rightarrow> string \<times> int \<times> error option"
  Write_ans :: "File \<Rightarrow> string \<Rightarrow> int \<times> error option"

text \<open>
  The state the program changes: the package variable \<open>numNRPorts\<close>, the descriptors
  that are open, the channels that have been closed, and the calls made so far.
\<close>

record world =
  numNRPorts :: int
  open_fds :: "nat set"
  closed_chans :: "nat set"
  trace :: "syscall list"

definition sys :: "syscall \<Rightarrow> world \<Rightarrow> world" where
  "sys c w = w\<lparr>trace := trace w @ [c]\<rparr>"

definition Socket :: "os \<Rightarrow> nat \<Rightarrow> nat \<Rightarrow> nat \<Rightarrow> world \<Rightarrow> (error + nat) \<times> world" where
  "Socket k domain typ proto w =
     (case Socket_ans k of
        Inl e \<Rightarrow> (Inl e, sys (SysSocket domain typ proto) w)
      | Inr f \<Rightarrow> (Inr f, sys (SysSocket domain typ proto) (w\<lparr>open_fds := insert f (open_fds w)\<rparr>)))"

definition SetNonblock :: "os \<Rightarrow> nat \<Rightarrow> bool \<Rightarrow> world \<Rightarrow> error option \<times> world" where
  "SetNonblock k f nonblocking w = (SetNonblock_ans k f nonblocking, sys (SysSetNonblock f nonblocking) w)"

definition Select ::
  "os \<Rightarrow> nat \<Rightarrow> FdSet option \<Rightarrow> FdSet option \<Rightarrow> Timeval option \<Rightarrow> world
     \<Rightarrow> (int \<times> error option \<times> FdSet) \<times> world" where
  "Select k nfd r wr timeout w = (Select_ans k, sys (SysSelect nfd r wr timeout) w)"

definition GetsockoptInt :: "os \<Rightarrow> nat \<Rightarrow> world \<Rightarrow> (int \<times> error option) \<times> world" where
  "GetsockoptInt k f w = (GetsockoptInt_ans k, sys (SysGetsockoptInt f) w)"

text \<open>\<^verbatim>\<open>func (sock fd) close() error { return syscall.Close(int(sock)) }\<close>\<close>

definition sock_close :: "os \<Rightarrow> nat \<Rightarrow> world \<Rightarrow> error option \<times> world" where
  "sock_close k sock w = (Close_ans k sock, sys (SysClose sock) (w\<lparr>open_fds := open_fds w - {sock}\<rparr>))"

definition sock_connect :: "os \<Rightarrow> nat \<Rightarrow> ax25Addr \<Rightarrow> world \<Rightarrow> error option \<times> world" where
  "sock_connect k sock addr w = (connect_ans k sock addr, sys (SysConnect sock addr) w)"

definition sock_bind :: "os \<Rightarrow> nat \<Rightarrow> ax25Addr \<Rightarrow> world \<Rightarrow> error option \<times> world" where
  "sock_bind k sock addr w = (bind_ans k sock addr, sys (SysBind sock addr) w)"

text \<open>
  \<open>accept\<close> panics when the kernel changed the length of the address.
\<close>

definition sock_accept :: "os \<Rightarrow> nat \<Rightarrow> world \<Rightarrow> panic + ((int \<times> ax25Addr \<times> error option) \<times> world)" where
  "sock_accept k sock w =
     (case accept_ans k of (n, addr, len_same, err) \<Rightarrow>
        if \<not> len_same then Inl (PanicMsg ''unexpected socklet_t'')
        else Inr ((n, addr, err),
                  sys (SysAccept sock)
                    (if err = None \<and> 0 \<le> n then w\<lparr>open_fds := insert (nat n) (open_fds w)\<rparr> else w)))"

section \<open>Ports and addresses of libax25\<close>

definition portExists :: "os \<Rightarrow> string \<Rightarrow> bool" where
  "portExists k port = nr_config_get_dev k port"

definition loadPorts :: "os \<Rightarrow> world \<Rightarrow> (int \<times> error option) \<times> world" where
  "loadPorts k w =
     (if 0 < numNRPorts w then ((numNRPorts w, None), w)
      else
        case nr_config_load_ports k of (n, err) \<Rightarrow>
          if err \<noteq> None then ((n, err), w)
          else if n = 0 then ((0, Some (ErrorString ''No NetROM ports configured'')), w)
          else ((n, err), w\<lparr>numNRPorts := n\<rparr>))"

definition checkPort :: "os \<Rightarrow> string \<Rightarrow> world \<Rightarrow> error option \<times> world" where
  "checkPort k nrPort w =
     (if nrPort = [] then (Some (ErrorString ''Invalid empty nrPort''), w)
      else
        case loadPorts k w of ((n, err), w1) \<Rightarrow>
          if err \<noteq> None then (err, w1)
          else if \<not> portExists k nrPort then (Some ErrPortNotExist, w1)
          else (None, w1))"

definition newNetROMAddr :: "os \<Rightarrow> string \<Rightarrow> panic + ax25Addr" where
  "newNetROMAddr k address =
     (case ax25_aton k address of (rc, addr) \<Rightarrow>
        if rc < 0 then Inl (PanicMsg ''ax25_aton'')
        else Inr (addr\<lparr>sax25_family := AF_NETROM\<rparr>))"

text \<open>
  \<open>setPort\<close> hands libax25 the address of its receiver variable, not of the struct the
  receiver points to, and never assigns its result \<open>err\<close>: the caller's address is as
  before and the error is nil. What the C call writes is outside this model.
\<close>

definition setPort :: "os \<Rightarrow> ax25Addr \<Rightarrow> string \<Rightarrow> ax25Addr \<times> error option" where
  "setPort k a port = (a, None)"

section \<open>Connecting with a timeout\<close>

text \<open>
  The \<open>for\<close> loop of \<open>connectTimeout\<close> and what follows it. Every branch of the loop's
  body ends in \<open>return\<close> or \<open>break\<close>; none reaches the end of the body, so the body
  runs once. The \<open>err\<close> that \<open>:=\<close> declares beside \<open>nerr\<close> is a new variable of the
  inner block (\<open>err'\<close>); after \<open>break\<close> the function returns its named result, which
  \<open>select\<close> assigned last.
\<close>

definition connectTimeout_wait ::
  "os \<Rightarrow> nat \<Rightarrow> int \<Rightarrow> FdSet \<Rightarrow> nat \<Rightarrow> world \<Rightarrow> error option \<times> world" where
  "connectTimeout_wait k sock timeout fdset maxFd w =
     (case Select k (maxFd + 1) None (Some fdset) (Some (NsecToTimeval timeout)) w of
        ((n, err, fdset'), w1) \<Rightarrow>
        if n < 0 \<and> err \<noteq> Some (Errno EINTR) then
          (err, snd (sock_close k sock w1))
        else if 0 < n then
          (case GetsockoptInt k sock w1 of ((nerr, err'), w2) \<Rightarrow>
             if err' \<noteq> None then (err', snd (sock_close k sock w2))
             else
               let err' = Errno (nat (nerr mod 2 ^ 64)) in
               if nerr \<noteq> 0 \<and> err' \<noteq> Errno EINPROGRESS \<and> err' \<noteq> Errno EALREADY
                    \<and> err' \<noteq> Errno EINTR
               then (Some err', snd (sock_close k sock w2))
               else (err, snd (SetNonblock k sock False w2)))
        else (Some (ErrorString ''Dial timeout''), snd (sock_close k sock w1)))"

definition connectTimeout ::
  "os \<Rightarrow> nat \<Rightarrow> ax25Addr \<Rightarrow> int \<Rightarrow> world \<Rightarrow> panic + (error option \<times> world)" where
  "connectTimeout k sock addr timeout w =
     (if timeout = 0 then Inr (sock_connect k sock addr w)
      else
        case SetNonblock k sock True w of (err, w1) \<Rightarrow>
          if err \<noteq> None then Inr (err, w1)
          else
            case sock_connect k sock addr w1 of (err, w2) \<Rightarrow>
              if err = None then Inr (None, w2)
              else if err \<noteq> Some (Errno EINPROGRESS) then Inr (err, w2)
              else
                case fdSet new_FdSet [sock] of
                  Inl p \<Rightarrow> Inl p
                | Inr (fdset, maxFd) \<Rightarrow> Inr (connectTimeout_wait k sock timeout fdset maxFd w2))"

section \<open>Connections\<close>

text \<open>
  \<^verbatim>\<open>type Conn struct { io.ReadWriteCloser; localAddr NetROMAddr; remoteAddr NetROMAddr }\<close>
  The methods have a pointer receiver, which may be nil: a \<^typ>\<open>'a option\<close>.
\<close>

record Conn =
  ReadWriteCloser :: File
  localAddr :: NetROMAddr
  remoteAddr :: NetROMAddr

definition ok :: "Conn option \<Rightarrow> bool" where
  "ok c = (c \<noteq> None)"

definition NewFile :: "nat \<Rightarrow> string \<Rightarrow> File" where
  "NewFile f name = \<lparr>file_fd = f, file_name = name\<rparr>"

definition DialNetROMTimeout ::
  "os \<Rightarrow> string \<Rightarrow> string \<Rightarrow> string \<Rightarrow> int \<Rightarrow> world \<Rightarrow> panic + ((error + Conn) \<times> world)" where
  "DialNetROMTimeout k nrPort mycall targetcall timeout w =
     (case checkPort k nrPort w of
        (Some err, w1) \<Rightarrow> Inr (Inl err, w1)
      | (None, w1) \<Rightarrow>
     (case newNetROMAddr k mycall of
        Inl p \<Rightarrow> Inl p
      | Inr localAddr0 \<Rightarrow>
     (case setPort k localAddr0 nrPort of
        (la, Some err) \<Rightarrow> Inr (Inl err, w1)
      | (la, None) \<Rightarrow>
     (case newNetROMAddr k targetcall of
        Inl p \<Rightarrow> Inl p
      | Inr ra \<Rightarrow>
     (case Socket k AF_NETROM SOCK_SEQPACKET 0 w1 of
        (Inl err, w2) \<Rightarrow> Inr (Inl err, w2)
      | (Inr socket, w2) \<Rightarrow>
     (case sock_bind k socket la w2 of
        (Some err, w3) \<Rightarrow> Inr (Inl err, w3)
      | (None, w3) \<Rightarrow>
     (case connectTimeout k socket ra timeout w3 of
        Inl p \<Rightarrow> Inl p
      | Inr (Some err, w4) \<Rightarrow> Inr (Inl err, snd (sock_close k socket w4))
      | Inr (None, w4) \<Rightarrow>
          Inr (Inr \<lparr>ReadWriteCloser = NewFile socket nrPort,
                    localAddr = NetROMAddr la,
                    remoteAddr = NetROMAddr ra\<rparr>, w4))))))))"

definition DialNetROM ::
  "os \<Rightarrow> string \<Rightarrow> string \<Rightarrow> string \<Rightarrow> world \<Rightarrow> panic + ((error + Conn) \<times> world)" where
  "DialNetROM k nrPort mycall targetcall w = DialNetROMTimeout k nrPort mycall targetcall 0 w"

definition Conn_Write :: "os \<Rightarrow> Conn option \<Rightarrow> string \<Rightarrow> int \<times> error option" where
  "Conn_Write k c p =
     (case c of
        None \<Rightarrow> (0, Some (Errno EINVAL))
      | Some conn \<Rightarrow>
          (case Write_ans k (ReadWriteCloser conn) p of (n, err) \<Rightarrow>
             (case err of
                Some (PathError opn path e) \<Rightarrow>
                  if Error (errno_text k) e = ''message too long'' then (n, Some ErrMessageTooLong)
                  else (n, err)
              | _ \<Rightarrow> (n, err))))"

text \<open>The bytes read are returned beside the count: Go writes them into the buffer \<open>p\<close>.\<close>

definition Conn_Read :: "os \<Rightarrow> Conn option \<Rightarrow> nat \<Rightarrow> string \<times> int \<times> error option" where
  "Conn_Read k c len_p =
     (case c of
        None \<Rightarrow> ([], 0, Some (Errno EINVAL))
      | Some conn \<Rightarrow>
          (case Read_ans k (ReadWriteCloser conn) len_p of (buf, n, err) \<Rightarrow>
             (case err of
                Some (PathError opn path e) \<Rightarrow>
                  if Error (errno_text k) e = ''transport endpoint is not connected''
                  then (buf, n, Some EOF)
                  else (buf, n, err)
              | _ \<Rightarrow> (buf, n, err))))"

section \<open>Listeners\<close>

text \<open>
  \<^verbatim>\<open>type netromListener struct { sock fd; localAddr NetROMAddr; close chan struct{} }\<close>
  A channel is a reference: \<open>None\<close> is the nil channel, \<open>Some c\<close> the channel \<open>c\<close>,
  whose state is in the world.
\<close>

record netromListener =
  ln_sock :: nat
  ln_localAddr :: NetROMAddr
  ln_close :: "nat option"

text \<open>The built-in \<open>close\<close> of a channel: it panics on a nil and on a closed channel.\<close>

definition close_chan :: "nat option \<Rightarrow> world \<Rightarrow> panic + world" where
  "close_chan ch w =
     (case ch of
        None \<Rightarrow> Inl CloseOfNilChannel
      | Some c \<Rightarrow>
          if c \<in> closed_chans w then Inl CloseOfClosedChannel
          else Inr (w\<lparr>closed_chans := insert c (closed_chans w)\<rparr>))"

text \<open>
  \<^verbatim>\<open>func (ln netromListener) Close() error { close(ln.close); return ln.sock.close() }\<close>
\<close>

definition netromListener_Close ::
  "os \<Rightarrow> netromListener \<Rightarrow> world \<Rightarrow> panic + (error option \<times> world)" where
  "netromListener_Close k ln w =
     (case close_chan (ln_close ln) w of
        Inl p \<Rightarrow> Inl p
      | Inr w1 \<Rightarrow> Inr (sock_close k (ln_sock ln) w1))"

text \<open>
  \<open>waitRead\<close>. The goroutine it starts waits for the channel \<open>cancel\<close> to be closed and
  then writes a byte into the pipe; it runs beside \<open>waitRead\<close>, which sees it only in
  what \<open>select\<close> answers. The deferred calls run when \<open>waitRead\<close> leaves, the last
  deferred first: the socket goes back to blocking mode (once that has been deferred),
  then the write end of the pipe is closed. Every branch of the loop's body leaves the
  loop, so the body runs once.
\<close>

definition waitRead_deferred :: "os \<Rightarrow> nat \<Rightarrow> nat \<Rightarrow> world \<Rightarrow> world" where
  "waitRead_deferred k sock pw w = snd (sock_close k pw (snd (SetNonblock k sock False w)))"

definition waitRead :: "os \<Rightarrow> nat \<Rightarrow> nat option \<Rightarrow> world \<Rightarrow> panic + (error option \<times> world)" where
  "waitRead k sock cancel w =
     (case Pipe_ans k of
        Inl err \<Rightarrow> Inr (Some err, sys SysPipe w)
      | Inr (pr, pw) \<Rightarrow>
          let w1 = sys SysPipe (w\<lparr>open_fds := insert pw (insert pr (open_fds w))\<rparr>) in
          (case fdSet new_FdSet [sock, pr] of
             Inl p \<Rightarrow> Inl p
           | Inr (fdset, maxFd) \<Rightarrow>
               let w2 = snd (SetNonblock k sock True w1) in
               (case Select k (maxFd + 1) (Some fdset) None None w2 of ((n, err, fdset'), w3) \<Rightarrow>
                  if n < 0 \<or> err \<noteq> None then Inr (err, waitRead_deferred k sock pw w3)
                  else
                    (case fdIsSet fdset' sock of
                       Inl p \<Rightarrow> Inl p
                     | Inr True \<Rightarrow> Inr (None, waitRead_deferred k sock pw w3)
                     | Inr False \<Rightarrow> Inr (Some (Errno EINVAL), waitRead_deferred k sock pw w3)))))"

definition netromListener_Accept ::
  "os \<Rightarrow> netromListener \<Rightarrow> world \<Rightarrow> panic + ((error + Conn) \<times> world)" where
  "netromListener_Accept k ln w =
     (case waitRead k (ln_sock ln) (ln_close ln) w of
        Inl p \<Rightarrow> Inl p
      | Inr (Some err, w1) \<Rightarrow> Inr (Inl err, w1)
      | Inr (None, w1) \<Rightarrow>
          (case sock_accept k (ln_sock ln) w1 of
             Inl p \<Rightarrow> Inl p
           | Inr ((nfd, addr, err), w2) \<Rightarrow>
               (case err of
                  Some e \<Rightarrow> Inr (Inl e, w2)
                | None \<Rightarrow>
                    Inr (Inr \<lparr>ReadWriteCloser = NewFile (nat (nfd mod 2 ^ 64)) [],
                              localAddr = ln_localAddr ln,
                              remoteAddr = NetROMAddr addr\<rparr>, w2))))"

section \<open>Vocabulary of the specification\<close>

text \<open>
  The specification speaks of an SSID that is a decimal integer. These definitions follow
  its words, not the code: the value of a string of decimal digits, the SSID field of an
  address string (the text between the first dash and the next dash or the end), the
  field without an optional plus sign, and whether the field is a decimal numeral.
\<close>

definition decimal_value :: "string \<Rightarrow> nat" where
  "decimal_value ds = foldl (\<lambda>n d. n * 10 + digitVal d) 0 ds"

definition ssid_field :: "string \<Rightarrow> string" where
  "ssid_field str =
     takeWhile (\<lambda>c. c \<noteq> CHR ''-'') (tl (dropWhile (\<lambda>c. c \<noteq> CHR ''-'') str))"

definition unsigned_part :: "string \<Rightarrow> string" where
  "unsigned_part f = (if f \<noteq> [] \<and> hd f = CHR ''+'' then tl f else f)"

definition numeric_field :: "string \<Rightarrow> bool" where
  "numeric_field f = (unsigned_part f \<noteq> [] \<and> list_all isDigit (unsigned_part f))"

section \<open>A concrete system\<close>

text \<open>
  One operating system to run the program on: the port \<open>radio0\<close> is configured,
  \<open>socket\<close> gives descriptor 3 and \<open>pipe\<close> the descriptors 4 and 5, \<open>connect\<close> on a
  non-blocking socket answers \<open>EINPROGRESS\<close>, \<open>select\<close> reports descriptor 3 ready, a
  read fails with \<open>ENOTCONN\<close> and a write with \<open>EMSGSIZE\<close>. Variations of it are made
  by record update where a theorem is run.
\<close>

definition example_addr :: "string \<Rightarrow> ax25Addr" where
  "example_addr s =
     \<lparr>sax25_family = 0, sax25_call = map of_char s, sax25_ndigis = 0,
      fsa_digipeater = []\<rparr>"

definition example_errno_text :: "nat \<Rightarrow> string" where
  "example_errno_text e =
     (if e = 22 then ''invalid argument''
      else if e = 90 then ''message too long''
      else if e = 107 then ''transport endpoint is not connected''
      else if e = 111 then ''connection refused''
      else ''errno'')"

definition example_os :: os where
  "example_os =
     \<lparr>errno_text = example_errno_text,
      nr_config_load_ports = (1, None),
      nr_config_get_dev = (\<lambda>port. port = ''radio0''),
      ax25_aton = (\<lambda>s. (0, example_addr s)),
      Socket_ans = Inr 3,
      bind_ans = (\<lambda>f a. None),
      connect_ans = (\<lambda>f a. Some (Errno 115)),
      SetNonblock_ans = (\<lambda>f b. None),
      Select_ans = (1, None, [8, 0, 0, 0, 0, 0, 0, 0, 0, 0, 0, 0, 0, 0, 0, 0]),
      GetsockoptInt_ans = (0, None),
      Close_ans = (\<lambda>f. None),
      accept_ans = (6, example_addr ''N0CALL-2'', True, None),
      Pipe_ans = Inr (4, 5),
      Read_ans = (\<lambda>f n. ([], 0, Some (PathError ''read'' (file_name f) (Errno 107)))),
      Write_ans = (\<lambda>f p. (0, Some (PathError ''write'' (file_name f) (Errno 90))))\<rparr>"

definition example_world :: world where
  "example_world = \<lparr>numNRPorts = 0, open_fds = {}, closed_chans = {}, trace = []\<rparr>"

definition example_listener :: netromListener where
  "example_listener =
     \<lparr>ln_sock = 3, ln_localAddr = NetROMAddr (example_addr ''N0CALL-1''), ln_close = Some 0\<rparr>"

definition example_conn :: Conn where
  "example_conn =
     \<lparr>ReadWriteCloser = NewFile 3 ''radio0'',
      localAddr = NetROMAddr (example_addr ''N0CALL-1''),
      remoteAddr = NetROMAddr (example_addr ''N0CALL-2'')\<rparr>"

section \<open>Properties of the library functions\<close>

lemma Split_none: "sep \<notin> set s \<Longrightarrow> Split s sep = [s]"
  by (subst Split.simps) (simp add: IndexByte_def)

lemma takeWhile_first: "sep \<notin> set a \<Longrightarrow> takeWhile (\<lambda>x. x \<noteq> sep) (a @ sep # b) = a"
  by (induction a) auto

lemma Split_first:
  assumes "sep \<notin> set a"
  shows "Split (a @ sep # b) sep = a # Split b sep"
proof -
  have m: "IndexByte (a @ sep # b) sep = int (length a)"
    by (simp only: IndexByte_def takeWhile_first [OF assms]) simp
  show ?thesis
    by (subst Split.simps) (simp add: m)
qed

lemma Split_Nil: "Split [] sep = [[]]"
  by (simp add: Split_none)

lemma Split_Cons:
  "Split (x # xs) sep =
     (if x = sep then [] # Split xs sep
      else (case Split xs sep of [] \<Rightarrow> [[x]] | p # ps \<Rightarrow> (x # p) # ps))"
proof (cases "x = sep")
  case True
  then show ?thesis using Split_first [of sep "[]" xs] by simp
next
  case False
  show ?thesis
  proof (cases "sep \<in> set xs")
    case True
    then obtain a b where xs: "xs = a @ sep # b" and a: "sep \<notin> set a"
      by (meson split_list_first)
    have "Split ((x # a) @ sep # b) sep = (x # a) # Split b sep"
      using a False by (intro Split_first) auto
    then show ?thesis using False a by (simp add: xs Split_first)
  next
    case notin: False
    then show ?thesis using False by (simp add: Split_none)
  qed
qed

lemma Split_takeWhile:
  "Split s sep = takeWhile (\<lambda>x. x \<noteq> sep) s #
     (if sep \<in> set s then Split (tl (dropWhile (\<lambda>x. x \<noteq> sep) s)) sep else [])"
proof (cases "sep \<in> set s")
  case True
  then obtain a b where s: "s = a @ sep # b" and a: "sep \<notin> set a"
    by (meson split_list_first)
  have "dropWhile (\<lambda>x. x \<noteq> sep) (a @ sep # b) = sep # b"
    using a by (induction a) auto
  then show ?thesis
    using True a by (simp add: s Split_first takeWhile_first del: takeWhile_append dropWhile_append)
next
  case False
  then have tw: "takeWhile (\<lambda>x. x \<noteq> sep) s = s" by (induction s) auto
  show ?thesis by (simp only: Split_none [OF False] tw False if_False)
qed





lemma ParseUint_loop_None:
  "ParseUint_loop M a ds = (n, None)
     \<Longrightarrow> list_all isDigit ds \<and> n = foldl (\<lambda>n d. n * 10 + digitVal d) a ds"
  by (induction ds arbitrary: a) (auto simp: Let_def split: if_splits)

lemma ParseUint_loop_ErrRange:
  "ParseUint_loop M a ds = (n, Some ErrRange) \<Longrightarrow> n = M"
  by (induction ds arbitrary: a) (auto simp: Let_def split: if_splits)


lemma ParseInt_None:
  assumes "ParseInt f 32 = (v, None)" "CHR ''-'' \<notin> set f"
  shows "numeric_field f \<and> v = int (decimal_value (unsigned_part f))"
proof -
  from assms(1) have ne: "f \<noteq> []" by (auto simp: ParseInt_def)
  with assms(2) have nd: "hd f \<noteq> CHR ''-''" by (cases f) auto
  define s1 where "s1 = (if hd f = CHR ''+'' then tl f else f)"
  have s1: "s1 = unsigned_part f" using ne by (simp add: s1_def unsigned_part_def)
  obtain un err where pu: "ParseUint s1 32 = (un, err)" by (cases "ParseUint s1 32")
  have "err \<noteq> Some ErrRange"
  proof
    assume r: "err = Some ErrRange"
    with pu have "un = 2 ^ 32 - 1"
      using ParseUint_loop_ErrRange [of "2 ^ 32 - 1" 0 s1 un]
      by (auto simp: ParseUint_def split: if_splits)
    with assms(1) ne nd pu r show False
      by (auto simp: ParseInt_def s1_def Let_def split: if_splits)
  qed
  with assms(1) ne nd pu have "err = None" and v: "v = int un"
    by (auto simp: ParseInt_def s1_def Let_def split: if_splits)
  with pu have "s1 \<noteq> []" and "ParseUint_loop (2 ^ 32 - 1) 0 s1 = (un, None)"
    by (auto simp: ParseUint_def split: if_splits)
  then show ?thesis
    using ParseUint_loop_None [of "2 ^ 32 - 1" 0 s1 un] v s1
    by (simp add: numeric_field_def decimal_value_def)
qed

lemma new_FdSet_list:
  "new_FdSet = [0, 0, 0, 0, 0, 0, 0, 0, 0, 0, 0, 0, 0, 0, 0, 0]"
  by (simp add: new_FdSet_def numeral_eq_Suc)

lemma new_FdSet_length: "length new_FdSet = 16"
  by (simp add: new_FdSet_def)

lemma new_FdSet_nth: "i < 16 \<Longrightarrow> new_FdSet ! i = 0"
  by (simp add: new_FdSet_def)

lemma fdSet_single:
  assumes "sock < 1024"
  shows "fdSet new_FdSet [sock] = Inr (new_FdSet[sock div 64 := push_bit (sock mod 64) 1], sock)"
proof -
  have "sock div 64 < 16" using assms by simp
  then show ?thesis
    using assms by (simp add: fdSet_def new_FdSet_length new_FdSet_nth)
qed

lemma fdSet_pair:
  assumes "sock < 1024" "pr < 1024"
  shows "\<exists>fdset. fdSet new_FdSet [sock, pr] = Inr (fdset, max sock pr)"
proof -
  have "sock div 64 < 16" "pr div 64 < 16" using assms by simp_all
  then show ?thesis
    using assms by (auto simp: fdSet_def new_FdSet_length max_def)
qed

lemma fdIsSet_total:
  assumes "length rs = 16" "sock < 1024"
  shows "\<exists>b. fdIsSet rs sock = Inr b"
proof -
  have "sock div 64 < 16" using assms by simp
  then show ?thesis using assms by (simp add: fdIsSet_def)
qed

section \<open>Addresses: the claims\<close>



text \<open>
  C5, as the code has it. The claim as stated fails: the suffix \<open>5-x\<close> is not a
  number, and the address parses with SSID 5, because only the text between the first and
  the second dash is read. What holds: when the string has a dash and its SSID field is
  not a decimal numeral (digits, with an optional plus sign), or is one with a value
  above 255, the result is an address, not a panic, with SSID 0 and the text before the
  first dash as call. A negative suffix is such a string: its field is empty.
\<close>

theorem AddressFromString_malformed_field:
  assumes "CHR ''-'' \<in> set str"
    and "\<not> numeric_field (ssid_field str) \<or> 255 < decimal_value (unsigned_part (ssid_field str))"
  shows "AddressFromString str = Inr \<lparr>Call = takeWhile (\<lambda>c. c \<noteq> CHR ''-'') str, SSID = 0\<rparr>"
proof -
  let ?rest = "tl (dropWhile (\<lambda>c. c \<noteq> CHR ''-'') str)"
  have "Split str CHR ''-'' = takeWhile (\<lambda>c. c \<noteq> CHR ''-'') str # Split ?rest CHR ''-''"
    using assms(1) Split_takeWhile [of str "CHR ''-''"] by simp
  moreover obtain more where "Split ?rest CHR ''-'' = ssid_field str # more"
    using Split_takeWhile [of ?rest "CHR ''-''"] by (simp add: ssid_field_def)
  ultimately have parts:
    "Split str CHR ''-'' = takeWhile (\<lambda>c. c \<noteq> CHR ''-'') str # ssid_field str # more"
    by simp
  have nodash: "CHR ''-'' \<notin> set (ssid_field str)"
    unfolding ssid_field_def by (auto dest: set_takeWhileD)
  obtain v err where p: "ParseInt (ssid_field str) 32 = (v, err)"
    by (cases "ParseInt (ssid_field str) 32")
  have "\<not> (err = None \<and> 0 \<le> v \<and> v \<le> 255)"
  proof
    assume a: "err = None \<and> 0 \<le> v \<and> v \<le> 255"
    with p nodash have "numeric_field (ssid_field str)"
      and "v = int (decimal_value (unsigned_part (ssid_field str)))"
      using ParseInt_None by blast+
    with a assms(2) show False by auto
  qed
  then show ?thesis
    by (auto simp: AddressFromString_def parts p)
qed

theorem AddressFromString_malformed_field_witness:
  "AddressFromString ''N0CALL-abc'' = Inr \<lparr>Call = ''N0CALL'', SSID = 0\<rparr>
   \<and> AddressFromString ''N0CALL--5'' = Inr \<lparr>Call = ''N0CALL'', SSID = 0\<rparr>
   \<and> AddressFromString ''N0CALL-256'' = Inr \<lparr>Call = ''N0CALL'', SSID = 0\<rparr>"
  using AddressFromString_malformed_field [of "''N0CALL-abc''"]
    AddressFromString_malformed_field [of "''N0CALL--5''"]
    AddressFromString_malformed_field [of "''N0CALL-256''"]
  by (simp add: ssid_field_def numeric_field_def unsigned_part_def decimal_value_def
      isDigit_def digitVal_def)

theorem AddressFromString_malformed_suffix_counterexample:
  "AddressFromString ''N0CALL-5-x'' = Inr \<lparr>Call = ''N0CALL'', SSID = 5\<rparr>"
  by (simp add: AddressFromString_def Split_Cons Split_Nil ParseInt_def ParseUint_def
      isDigit_def digitVal_def)

section \<open>Connecting: the claims\<close>

lemma NsecToTimeval_5s: "NsecToTimeval 5000000000 = \<lparr>tv_Sec = 5, tv_Usec = 0\<rparr>"
  by (simp add: NsecToTimeval_def wrap_int64_def int_quo_def int_rem_def)

text \<open>
  The body of the loop in \<open>connectTimeout\<close> runs once. With a pending error of
  \<open>EINPROGRESS\<close> the calls are one \<open>select\<close>, one \<open>getsockopt\<close> and the return to
  blocking mode.
\<close>

lemma connectTimeout_loop_body_once_example:
  "connectTimeout (example_os\<lparr>GetsockoptInt_ans := (115, None)\<rparr>) 3
       (example_addr ''N0CALL-2'') 5000000000 (example_world\<lparr>open_fds := {3}\<rparr>) =
     Inr (None,
          \<lparr>numNRPorts = 0, open_fds = {3}, closed_chans = {},
           trace = [SysSetNonblock 3 True, SysConnect 3 (example_addr ''N0CALL-2''),
                    SysSelect 4 None (Some [8, 0, 0, 0, 0, 0, 0, 0, 0, 0, 0, 0, 0, 0, 0, 0])
                      (Some \<lparr>tv_Sec = 5, tv_Usec = 0\<rparr>),
                    SysGetsockoptInt 3, SysSetNonblock 3 False]\<rparr>)"
  by (simp add: connectTimeout_def connectTimeout_wait_def fdSet_def new_FdSet_list
      SetNonblock_def sock_connect_def Select_def GetsockoptInt_def sock_close_def sys_def
      example_os_def example_world_def EINPROGRESS_def EALREADY_def EINTR_def
      NsecToTimeval_5s)

text \<open>
  C1, as the code has it. The claim as stated fails at a pending error of \<open>EINTR\<close>: it
  is a non-zero pending error other than \<open>EINPROGRESS\<close> and \<open>EALREADY\<close>, and the guard
  of the code exempts it from failure with those two. What holds, for a non-zero
  timeout, once the connect is in progress, \<open>select\<close> has reported a ready descriptor and
  the pending error has been read: a pending error that is not 0, \<open>EINPROGRESS\<close>,
  \<open>EALREADY\<close> or \<open>EINTR\<close> ends the attempt as a failure, the socket is closed and the
  pending error is returned; a pending error of \<open>EINPROGRESS\<close>, \<open>EALREADY\<close> or \<open>EINTR\<close>
  is not a failure, the socket is not closed and the pending error is not returned.
\<close>

theorem connectTimeout_pending_error:
  assumes "timeout \<noteq> 0"
    and "SetNonblock_ans k sock True = None"
    and "connect_ans k sock addr = Some (Errno EINPROGRESS)"
    and "sock < 1024"
    and "Select_ans k = (n, None, rs)" and "0 < n"
    and "GetsockoptInt_ans k = (nerr, None)"
  shows "(nerr \<noteq> 0 \<and> nat (nerr mod 2 ^ 64) \<notin> {EINPROGRESS, EALREADY, EINTR} \<longrightarrow>
           connectTimeout k sock addr timeout w =
             Inr (Some (Errno (nat (nerr mod 2 ^ 64))),
                  w\<lparr>open_fds := open_fds w - {sock},
                    trace := trace w @
                      [SysSetNonblock sock True, SysConnect sock addr,
                       SysSelect (sock + 1) None
                         (Some (new_FdSet[sock div 64 := push_bit (sock mod 64) 1]))
                         (Some (NsecToTimeval timeout)),
                       SysGetsockoptInt sock, SysClose sock]\<rparr>))
       \<and> (nat (nerr mod 2 ^ 64) \<in> {EINPROGRESS, EALREADY, EINTR} \<longrightarrow>
           (\<exists>r w'. connectTimeout k sock addr timeout w = Inr (r, w')
              \<and> r \<noteq> Some (Errno (nat (nerr mod 2 ^ 64)))
              \<and> open_fds w' = open_fds w
              \<and> SysClose sock \<notin> set (drop (length (trace w)) (trace w'))))"
  using assms
  by (auto simp: connectTimeout_def connectTimeout_wait_def fdSet_single SetNonblock_def
      sock_connect_def Select_def GetsockoptInt_def sock_close_def sys_def)

theorem connectTimeout_pending_error_witness:
  "connectTimeout (example_os\<lparr>GetsockoptInt_ans := (111, None)\<rparr>) 3
       (example_addr ''N0CALL-2'') 5000000000 (example_world\<lparr>open_fds := {3}\<rparr>) =
     Inr (Some (Errno 111),
          \<lparr>numNRPorts = 0, open_fds = {}, closed_chans = {},
           trace = [SysSetNonblock 3 True, SysConnect 3 (example_addr ''N0CALL-2''),
                    SysSelect 4 None (Some [8, 0, 0, 0, 0, 0, 0, 0, 0, 0, 0, 0, 0, 0, 0, 0])
                      (Some \<lparr>tv_Sec = 5, tv_Usec = 0\<rparr>),
                    SysGetsockoptInt 3, SysClose 3]\<rparr>)
   \<and> (\<exists>r w'. connectTimeout (example_os\<lparr>GetsockoptInt_ans := (114, None)\<rparr>) 3
         (example_addr ''N0CALL-2'') 5000000000 (example_world\<lparr>open_fds := {3}\<rparr>) = Inr (r, w')
       \<and> r \<noteq> Some (Errno 114) \<and> open_fds w' = {3} \<and> SysClose 3 \<notin> set (trace w'))"
  using connectTimeout_pending_error [of 5000000000
      "example_os\<lparr>GetsockoptInt_ans := (111, None)\<rparr>" 3 "example_addr ''N0CALL-2''"
      1 "[8, 0, 0, 0, 0, 0, 0, 0, 0, 0, 0, 0, 0, 0, 0, 0]" 111
      "example_world\<lparr>open_fds := {3}\<rparr>"]
    connectTimeout_pending_error [of 5000000000
      "example_os\<lparr>GetsockoptInt_ans := (114, None)\<rparr>" 3 "example_addr ''N0CALL-2''"
      1 "[8, 0, 0, 0, 0, 0, 0, 0, 0, 0, 0, 0, 0, 0, 0, 0]" 114
      "example_world\<lparr>open_fds := {3}\<rparr>"]
  by (simp add: example_os_def example_world_def new_FdSet_list NsecToTimeval_5s
      EINPROGRESS_def EALREADY_def EINTR_def)

theorem connectTimeout_pending_EINTR_counterexample:
  "connectTimeout (example_os\<lparr>GetsockoptInt_ans := (4, None)\<rparr>) 3
       (example_addr ''N0CALL-2'') 5000000000 (example_world\<lparr>open_fds := {3}\<rparr>) =
     Inr (None,
          \<lparr>numNRPorts = 0, open_fds = {3}, closed_chans = {},
           trace = [SysSetNonblock 3 True, SysConnect 3 (example_addr ''N0CALL-2''),
                    SysSelect 4 None (Some [8, 0, 0, 0, 0, 0, 0, 0, 0, 0, 0, 0, 0, 0, 0, 0])
                      (Some \<lparr>tv_Sec = 5, tv_Usec = 0\<rparr>),
                    SysGetsockoptInt 3, SysSetNonblock 3 False]\<rparr>)"
  by (simp add: connectTimeout_def connectTimeout_wait_def fdSet_def new_FdSet_list
      SetNonblock_def sock_connect_def Select_def GetsockoptInt_def sock_close_def sys_def
      example_os_def example_world_def EINPROGRESS_def EALREADY_def EINTR_def
      NsecToTimeval_5s)

text \<open>
  C2. The claim is what the package's own connect path does and its bind path misses.
  With the port configured, \<open>socket\<close> giving descriptor 3 and \<open>bind\<close> failing with
  \<open>EADDRINUSE\<close> (98), \<open>DialNetROMTimeout\<close> returns that error after the two calls
  \<open>socket\<close> and \<open>bind\<close>: descriptor 3 is never closed and is still open.
\<close>

theorem DialNetROMTimeout_bind_failure_leaves_socket_open:
  "DialNetROMTimeout (example_os\<lparr>bind_ans := (\<lambda>f a. Some (Errno 98))\<rparr>)
       ''radio0'' ''N0CALL-1'' ''N0CALL-2'' 5000000000 example_world =
     Inr (Inl (Errno 98),
          \<lparr>numNRPorts = 1, open_fds = {3}, closed_chans = {},
           trace = [SysSocket 6 5 0,
                    SysBind 3 ((example_addr ''N0CALL-1'')\<lparr>sax25_family := 6\<rparr>)]\<rparr>)"
  by (simp add: DialNetROMTimeout_def checkPort_def loadPorts_def portExists_def
      newNetROMAddr_def setPort_def Socket_def sock_bind_def sys_def
      example_os_def example_world_def AF_NETROM_def SOCK_SEQPACKET_def)

text \<open>
  C8. \<open>DialNetROM\<close> is \<open>DialNetROMTimeout\<close> with timeout 0, and \<open>connectTimeout\<close>
  with timeout 0 makes one call, the blocking \<open>connect\<close>, and returns what it answers:
  the socket is not made non-blocking, \<open>select\<close> is not called and no timeout error
  is made.
\<close>

theorem connectTimeout_zero:
  "DialNetROM k nrPort mycall targetcall w = DialNetROMTimeout k nrPort mycall targetcall 0 w
   \<and> connectTimeout k sock addr 0 w =
       Inr (connect_ans k sock addr, w\<lparr>trace := trace w @ [SysConnect sock addr]\<rparr>)"
  by (simp add: DialNetROM_def connectTimeout_def sock_connect_def sys_def)

theorem connectTimeout_zero_witness:
  "DialNetROM example_os ''radio0'' ''N0CALL-1'' ''N0CALL-2'' example_world =
     DialNetROMTimeout example_os ''radio0'' ''N0CALL-1'' ''N0CALL-2'' 0 example_world
   \<and> connectTimeout example_os 3 (example_addr ''N0CALL-2'') 0 example_world =
       Inr (Some (Errno 115),
            \<lparr>numNRPorts = 0, open_fds = {}, closed_chans = {},
             trace = [SysConnect 3 (example_addr ''N0CALL-2'')]\<rparr>)"
  using connectTimeout_zero [of example_os "''radio0''" "''N0CALL-1''" "''N0CALL-2''"
      example_world 3 "example_addr ''N0CALL-2''"]
  by (simp add: example_os_def example_world_def)

section \<open>Connections: the claims\<close>

text \<open>
  C6. On a connection that is not nil, when the read of the underlying file returns an
  \<open>*os.PathError\<close> whose wrapped error reads \<open>transport endpoint is not connected\<close>,
  \<open>Conn.Read\<close> returns \<open>io.EOF\<close> with the same count; every other result of the
  underlying read, error or not, is returned as it is.
\<close>

theorem Conn_Read_hangup:
  assumes "Read_ans k (ReadWriteCloser c) len_p = (buf, n, err)"
  shows "Conn_Read k (Some c) len_p =
           (buf, n,
            if \<exists>opn path e. err = Some (PathError opn path e)
                 \<and> Error (errno_text k) e = ''transport endpoint is not connected''
            then Some EOF else err)"
  using assms by (auto simp: Conn_Read_def split: option.splits error.splits)

theorem Conn_Read_hangup_witness:
  "Conn_Read example_os (Some example_conn) 128 = ([], 0, Some EOF)
   \<and> Conn_Read (example_os\<lparr>Read_ans := (\<lambda>f n. ([], 0, Some (Errno 11)))\<rparr>)
         (Some example_conn) 128 = ([], 0, Some (Errno 11))"
  using Conn_Read_hangup [of example_os example_conn 128 "[]" 0
      "Some (PathError ''read'' ''radio0'' (Errno 107))"]
    Conn_Read_hangup [of "example_os\<lparr>Read_ans := (\<lambda>f n. ([], 0, Some (Errno 11)))\<rparr>"
      example_conn 128 "[]" 0 "Some (Errno 11)"]
  by (simp add: example_os_def example_conn_def example_errno_text_def NewFile_def)

text \<open>
  C7. On a connection that is not nil, when the write to the underlying file returns an
  \<open>*os.PathError\<close> whose wrapped error reads \<open>message too long\<close>, \<open>Conn.Write\<close>
  returns \<open>ErrMessageTooLong\<close> with the same count; every other result of the
  underlying write is returned as it is.
\<close>

theorem Conn_Write_too_long:
  assumes "Write_ans k (ReadWriteCloser c) p = (n, err)"
  shows "Conn_Write k (Some c) p =
           (n,
            if \<exists>opn path e. err = Some (PathError opn path e)
                 \<and> Error (errno_text k) e = ''message too long''
            then Some ErrMessageTooLong else err)"
  using assms by (auto simp: Conn_Write_def split: option.splits error.splits)

theorem Conn_Write_too_long_witness:
  "Conn_Write example_os (Some example_conn) ''hello'' = (0, Some ErrMessageTooLong)
   \<and> Conn_Write (example_os\<lparr>Write_ans := (\<lambda>f p. (2, Some (Errno 11)))\<rparr>)
         (Some example_conn) ''hello'' = (2, Some (Errno 11))"
  using Conn_Write_too_long [of example_os example_conn "''hello''" 0
      "Some (PathError ''write'' ''radio0'' (Errno 90))"]
    Conn_Write_too_long [of "example_os\<lparr>Write_ans := (\<lambda>f p. (2, Some (Errno 11)))\<rparr>"
      example_conn "''hello''" 2 "Some (Errno 11)"]
  by (simp add: example_os_def example_conn_def example_errno_text_def NewFile_def)

section \<open>Listeners: the claims\<close>

text \<open>
  C9. When the pipe was made, the descriptors fit a descriptor set and \<open>select\<close>
  returns without error, \<open>waitRead\<close> returns nil exactly when the returned set holds the
  socket, whether or not it also holds the read end of the cancellation pipe, and
  \<open>EINVAL\<close> exactly when it does not hold the socket.
\<close>

theorem waitRead_socket_wins:
  assumes "Pipe_ans k = Inr (pr, pw)" and "sock < 1024" and "pr < 1024"
    and "Select_ans k = (n, None, rs)" and "0 \<le> n" and "length rs = 16"
  shows "\<exists>w'. waitRead k sock cancel w =
           Inr (if fdIsSet rs sock = Inr True then None else Some (Errno EINVAL), w')"
proof -
  obtain fdset where fs: "fdSet new_FdSet [sock, pr] = Inr (fdset, max sock pr)"
    using fdSet_pair assms(2,3) by blast
  obtain b where b: "fdIsSet rs sock = Inr b"
    using fdIsSet_total assms(6,2) by blast
  show ?thesis
    using assms(1,4,5) by (cases b) (simp_all add: waitRead_def fs b Select_def Let_def)
qed

theorem waitRead_socket_wins_witness:
  "\<exists>w'. waitRead
          (example_os\<lparr>Select_ans := (2, None, [24, 0, 0, 0, 0, 0, 0, 0, 0, 0, 0, 0, 0, 0, 0, 0])\<rparr>)
          3 (Some 0) (example_world\<lparr>closed_chans := {0}\<rparr>) = Inr (None, w')"
  using waitRead_socket_wins [of
      "example_os\<lparr>Select_ans := (2, None, [24, 0, 0, 0, 0, 0, 0, 0, 0, 0, 0, 0, 0, 0, 0, 0])\<rparr>"
      4 5 3 2 "[24, 0, 0, 0, 0, 0, 0, 0, 0, 0, 0, 0, 0, 0, 0, 0]" "Some 0"
      "example_world\<lparr>closed_chans := {0}\<rparr>"]
  by (simp add: example_os_def fdIsSet_def)

text \<open>
  C3, as the code has it. The claim as stated fails: the package has no error of its own
  for a closed listener, and when the wait is woken by the cancellation pipe alone
  \<open>Accept\<close> returns \<open>syscall.EINVAL\<close>, an error of the operating system, as the comment
  of \<open>waitRead\<close> says. What holds is stated on what \<open>select\<close> answers; what a concurrent
  \<open>Close\<close> makes it answer is not part of the statement. Every error \<open>Accept\<close>
  returns is the error of \<open>os.Pipe\<close>, of \<open>select\<close> or of the kernel's \<open>accept\<close>, or it
  is \<open>EINVAL\<close>. When the pipe was made, the descriptors fit a descriptor set and
  \<open>select\<close> returns without error: if the returned set does not hold the socket,
  \<open>Accept\<close> returns \<open>EINVAL\<close>; if it holds the socket, \<open>Accept\<close> calls the kernel's
  \<open>accept\<close> and returns its error if it has one, and otherwise a connection whose local
  address is the listener's and whose remote address is the peer address the kernel
  reported.
\<close>

theorem Accept_result:
  "(Pipe_ans k = Inr (pr, pw) \<and> ln_sock ln < 1024 \<and> pr < 1024
      \<and> Select_ans k = (n, None, rs) \<and> 0 \<le> n \<and> length rs = 16
      \<and> accept_ans k = (nfd, addr, True, aerr) \<longrightarrow>
    (\<exists>w'. netromListener_Accept k ln w =
       Inr (if fdIsSet rs (ln_sock ln) = Inr True
            then (case aerr of
                    None \<Rightarrow> Inr \<lparr>ReadWriteCloser = NewFile (nat (nfd mod 2 ^ 64)) [],
                                 localAddr = ln_localAddr ln,
                                 remoteAddr = NetROMAddr addr\<rparr>
                  | Some e \<Rightarrow> Inl e)
            else Inl (Errno EINVAL), w')))
   \<and> (netromListener_Accept k ln w = Inr (Inl err, w1) \<longrightarrow>
        err = Errno EINVAL \<or> Pipe_ans k = Inl err \<or> fst (snd (Select_ans k)) = Some err
          \<or> snd (snd (snd (accept_ans k))) = Some err)"
proof (intro conjI impI)
  assume a: "Pipe_ans k = Inr (pr, pw) \<and> ln_sock ln < 1024 \<and> pr < 1024
      \<and> Select_ans k = (n, None, rs) \<and> 0 \<le> n \<and> length rs = 16
      \<and> accept_ans k = (nfd, addr, True, aerr)"
  obtain fdset where fs: "fdSet new_FdSet [ln_sock ln, pr] = Inr (fdset, max (ln_sock ln) pr)"
    using fdSet_pair a by blast
  obtain b where b: "fdIsSet rs (ln_sock ln) = Inr b"
    using fdIsSet_total a by blast
  show "\<exists>w'. netromListener_Accept k ln w =
       Inr (if fdIsSet rs (ln_sock ln) = Inr True
            then (case aerr of
                    None \<Rightarrow> Inr \<lparr>ReadWriteCloser = NewFile (nat (nfd mod 2 ^ 64)) [],
                                 localAddr = ln_localAddr ln,
                                 remoteAddr = NetROMAddr addr\<rparr>
                  | Some e \<Rightarrow> Inl e)
            else Inl (Errno EINVAL), w')"
    using a
    by (cases b; cases aerr)
       (simp_all add: netromListener_Accept_def waitRead_def fs b Select_def Let_def sock_accept_def)
next
  assume r: "netromListener_Accept k ln w = Inr (Inl err, w1)"
  obtain n' serr rs' where sel: "Select_ans k = (n', serr, rs')"
    by (cases "Select_ans k")
  obtain nfd' addr' same aerr' where acc: "accept_ans k = (nfd', addr', same, aerr')"
    by (cases "accept_ans k")
  from r show "err = Errno EINVAL \<or> Pipe_ans k = Inl err \<or> fst (snd (Select_ans k)) = Some err
          \<or> snd (snd (snd (accept_ans k))) = Some err"
    by (auto simp: netromListener_Accept_def waitRead_def Select_def Let_def sock_accept_def
        sel acc split: sum.splits prod.splits option.splits if_splits bool.splits)
qed

theorem Accept_result_witness:
  "(\<exists>w'. netromListener_Accept example_os example_listener example_world =
      Inr (Inr \<lparr>ReadWriteCloser = NewFile 6 [],
                localAddr = NetROMAddr (example_addr ''N0CALL-1''),
                remoteAddr = NetROMAddr (example_addr ''N0CALL-2'')\<rparr>, w'))
   \<and> example_addr ''N0CALL-1'' \<noteq> example_addr ''N0CALL-2''
   \<and> (\<exists>w'. netromListener_Accept
          (example_os\<lparr>Select_ans := (1, None, [16, 0, 0, 0, 0, 0, 0, 0, 0, 0, 0, 0, 0, 0, 0, 0])\<rparr>)
          example_listener example_world =
      Inr (Inl (Errno EINVAL), w'))"
  using Accept_result [of example_os 4 5 example_listener 1
      "[8, 0, 0, 0, 0, 0, 0, 0, 0, 0, 0, 0, 0, 0, 0, 0]" 6 "example_addr ''N0CALL-2''" None
      example_world]
    Accept_result [of
      "example_os\<lparr>Select_ans := (1, None, [16, 0, 0, 0, 0, 0, 0, 0, 0, 0, 0, 0, 0, 0, 0, 0])\<rparr>"
      4 5 example_listener 1
      "[16, 0, 0, 0, 0, 0, 0, 0, 0, 0, 0, 0, 0, 0, 0, 0]" 6 "example_addr ''N0CALL-2''" None
      example_world]
  by (simp add: example_os_def example_listener_def example_addr_def fdIsSet_def)

theorem Accept_cancelled_counterexample:
  "netromListener_Accept
       (example_os\<lparr>Select_ans := (1, None, [16, 0, 0, 0, 0, 0, 0, 0, 0, 0, 0, 0, 0, 0, 0, 0])\<rparr>)
       example_listener (example_world\<lparr>open_fds := {3}\<rparr>) =
     Inr (Inl (Errno 22),
          \<lparr>numNRPorts = 0, open_fds = {3, 4}, closed_chans = {},
           trace = [SysPipe, SysSetNonblock 3 True,
                    SysSelect 5 (Some [24, 0, 0, 0, 0, 0, 0, 0, 0, 0, 0, 0, 0, 0, 0, 0]) None None,
                    SysSetNonblock 3 False, SysClose 5]\<rparr>)
   \<and> netromListener_Accept
       (example_os\<lparr>Select_ans := (- 1, Some (Errno 9), [24, 0, 0, 0, 0, 0, 0, 0, 0, 0, 0, 0, 0, 0, 0, 0])\<rparr>)
       example_listener example_world =
     Inr (Inl (Errno 9),
          \<lparr>numNRPorts = 0, open_fds = {4}, closed_chans = {},
           trace = [SysPipe, SysSetNonblock 3 True,
                    SysSelect 5 (Some [24, 0, 0, 0, 0, 0, 0, 0, 0, 0, 0, 0, 0, 0, 0, 0]) None None,
                    SysSetNonblock 3 False, SysClose 5]\<rparr>)"
  by (simp add: netromListener_Accept_def waitRead_def waitRead_deferred_def fdSet_def
      fdIsSet_def new_FdSet_list SetNonblock_def Select_def sock_close_def sys_def
      example_os_def example_world_def example_listener_def EINVAL_def insert_commute)

text \<open>
  C10. A listener's \<open>Close\<close> that returns has closed the listener's channel, and the
  channel stays closed; a second \<open>Close\<close> of the same listener, whatever the operating
  system answers, panics on closing the closed channel and returns no error.
\<close>

theorem netromListener_Close_twice:
  assumes "netromListener_Close k ln w = Inr (r, w')"
  shows "netromListener_Close k' ln w' = Inl CloseOfClosedChannel"
  using assms
  by (auto simp: netromListener_Close_def close_chan_def sock_close_def sys_def
      split: option.splits if_splits sum.splits)

theorem netromListener_Close_twice_witness:
  "netromListener_Close example_os example_listener (example_world\<lparr>open_fds := {3}\<rparr>) =
     Inr (None, \<lparr>numNRPorts = 0, open_fds = {}, closed_chans = {0}, trace = [SysClose 3]\<rparr>)
   \<and> netromListener_Close example_os example_listener
       \<lparr>numNRPorts = 0, open_fds = {}, closed_chans = {0}, trace = [SysClose 3]\<rparr> =
     Inl CloseOfClosedChannel"
proof -
  have first:
    "netromListener_Close example_os example_listener (example_world\<lparr>open_fds := {3}\<rparr>) =
       Inr (None, \<lparr>numNRPorts = 0, open_fds = {}, closed_chans = {0}, trace = [SysClose 3]\<rparr>)"
    by (simp add: netromListener_Close_def close_chan_def sock_close_def sys_def
        example_os_def example_world_def example_listener_def)
  from netromListener_Close_twice [OF first, of example_os] first show ?thesis
    by simp
qed

end
